theory Spec2Isabelle
  imports Main
begin

section \<open>The Linux plugin of flutter\_persistent\_state\<close>

text \<open>
  A shallow embedding of \<^verbatim>\<open>linux/flutter_persistent_state_plugin.cc\<close>: the
  method-call handler, \<^verbatim>\<open>get_platform_version\<close> and the registration with the
  plugin registrar. The functions of libc, GLib and flutter\_linux that the file calls are
  modelled next to the code that calls them, each with what it is taken to do.
\<close>

subsection \<open>C strings\<close>

text \<open>
  A \<^verbatim>\<open>gchar*\<close> or a \<^verbatim>\<open>char[]\<close> is held as the list of its bytes; the
  end of the list stands for a terminating NUL. The C string such a buffer denotes is made
  of the bytes before its first NUL.
\<close>

definition c_str :: "string \<Rightarrow> string" where
  "c_str buf = takeWhile (\<lambda>c. c \<noteq> CHR 0x00) buf"

text \<open>
  \<^verbatim>\<open>strcmp\<close> of libc: the two strings are compared byte by byte, as unsigned
  chars, up to the first difference or the terminator. The value is the difference of the
  two bytes where the strings part (the C standard fixes only its sign), and 0 when both
  strings end together.
\<close>

fun strcmp :: "string \<Rightarrow> string \<Rightarrow> int" where
  "strcmp [] [] = 0"
| "strcmp [] (b # bs) = 0 - of_char b"
| "strcmp (a # as) [] = of_char a - 0"
| "strcmp (a # as) (b # bs) =
     (if a \<noteq> b then of_char a - of_char b
      else if a = CHR 0x00 then 0
      else strcmp as bs)"

subsection \<open>Values, method calls and responses of flutter\_linux\<close>

text \<open>
  \<^verbatim>\<open>FlValue\<close> is the structured value of the standard codec; the floating-point
  and typed-array kinds are left out, the plugin builds strings only.
  \<^verbatim>\<open>fl_value_new_string\<close> copies a C string.
\<close>

datatype FlValue =
    FlValueNull
  | FlValueBool bool
  | FlValueInt int
  | FlValueString string
  | FlValueList "FlValue list"
  | FlValueMap "(FlValue \<times> FlValue) list"

definition fl_value_new_string :: "string \<Rightarrow> FlValue" where
  "fl_value_new_string s = FlValueString (c_str s)"

text \<open>The three kinds of \<^verbatim>\<open>FlMethodResponse\<close>, with their constructors.\<close>

datatype FlMethodResponse =
    FlMethodSuccessResponse FlValue
  | FlMethodErrorResponse string string FlValue
  | FlMethodNotImplementedResponse

definition fl_method_success_response_new :: "FlValue \<Rightarrow> FlMethodResponse" where
  "fl_method_success_response_new result = FlMethodSuccessResponse result"

definition fl_method_not_implemented_response_new :: "FlMethodResponse" where
  "fl_method_not_implemented_response_new = FlMethodNotImplementedResponse"

text \<open>
  A \<^verbatim>\<open>FlMethodCall\<close> carries the name of the method and its arguments.
  \<^verbatim>\<open>fl_method_call_respond\<close> sends a response for a call; the responses sent so
  far are kept, oldest first, each with the call it answers.
\<close>

record FlMethodCall =
  name :: string
  args :: FlValue

definition fl_method_call_get_name :: "FlMethodCall \<Rightarrow> string" where
  "fl_method_call_get_name method_call = name method_call"

type_synonym responses = "(FlMethodCall \<times> FlMethodResponse) list"

definition fl_method_call_respond ::
  "FlMethodCall \<Rightarrow> FlMethodResponse \<Rightarrow> responses \<Rightarrow> responses" where
  "fl_method_call_respond method_call response sent = sent @ [(method_call, response)]"

subsection \<open>The system call uname\<close>

text \<open>
  \<^verbatim>\<open>struct utsname\<close> of \<^verbatim>\<open>sys/utsname.h\<close>: six character arrays of
  \<^verbatim>\<open>_UTSNAME_LENGTH\<close> bytes (65 in glibc). The initialiser \<^verbatim>\<open>= {}\<close> sets
  every byte of every array to 0.
\<close>

record utsname =
  sysname :: string
  nodename :: string
  release :: string
  version :: string
  machine :: string
  domainname :: string

definition UTSNAME_LENGTH :: nat where
  "UTSNAME_LENGTH = 65"

definition utsname_zero :: utsname where
  "utsname_zero =
     \<lparr>sysname = replicate UTSNAME_LENGTH (CHR 0x00),
      nodename = replicate UTSNAME_LENGTH (CHR 0x00),
      release = replicate UTSNAME_LENGTH (CHR 0x00),
      version = replicate UTSNAME_LENGTH (CHR 0x00),
      machine = replicate UTSNAME_LENGTH (CHR 0x00),
      domainname = replicate UTSNAME_LENGTH (CHR 0x00)\<rparr>"

text \<open>
  The running system, as far as \<^verbatim>\<open>uname\<close> shows it: \<open>Some u\<close> when the call
  succeeds and stores \<open>u\<close> in the caller's struct, \<open>None\<close> when it fails. A failing
  call returns -1 and is taken to write nothing: the caller's struct keeps its bytes.
\<close>

type_synonym kernel = "utsname option"

definition uname :: "kernel \<Rightarrow> utsname \<Rightarrow> int \<times> utsname" where
  "uname k buf = (case k of Some u \<Rightarrow> (0, u) | None \<Rightarrow> (- 1, buf))"

subsection \<open>get\_platform\_version\<close>

text \<open>
  \<^verbatim>\<open>g_strdup_printf("Linux %s", v)\<close>: the text of the format, with the C string
  that \<open>v\<close> denotes in the place of \<^verbatim>\<open>%s\<close>.
\<close>

definition g_strdup_printf_Linux :: "string \<Rightarrow> string" where
  "g_strdup_printf_Linux v = ''Linux '' @ c_str v"

text \<open>
  The struct is zeroed, \<^verbatim>\<open>uname\<close> fills it, and its return value is dropped.
\<close>

definition get_platform_version :: "kernel \<Rightarrow> FlMethodResponse" where
  "get_platform_version k =
     (let uname_data = utsname_zero;
          uname_data = snd (uname k uname_data);
          version_text = g_strdup_printf_Linux (version uname_data);
          result = fl_value_new_string version_text
      in fl_method_success_response_new result)"

subsection \<open>The method-call handler\<close>

text \<open>The plugin object has no field besides its parent instance.\<close>

datatype GObject = GObject

record FlutterPersistentStatePlugin =
  parent_instance :: GObject

definition flutter_persistent_state_plugin_handle_method_call ::
  "kernel \<Rightarrow> FlutterPersistentStatePlugin \<Rightarrow> FlMethodCall \<Rightarrow> responses \<Rightarrow> responses" where
  "flutter_persistent_state_plugin_handle_method_call k self method_call sent =
     (let method = fl_method_call_get_name method_call;
          response =
            (if strcmp method ''getPlatformVersion'' = 0 then get_platform_version k
             else fl_method_not_implemented_response_new)
      in fl_method_call_respond method_call response sent)"

subsection \<open>Registration\<close>

text \<open>
  A method channel has a name and a codec, and at most one method-call handler: a callback
  with the user data it is called with. The binary messenger holds the channels by name;
  a channel is referred to by its name. \<^verbatim>\<open>fl_method_channel_new\<close> puts a channel
  without handler under the name, \<^verbatim>\<open>fl_method_channel_set_method_call_handler\<close>
  stores the handler in an existing channel.
\<close>

datatype FlMethodCodec = FlStandardMethodCodec | FlJsonMethodCodec

definition fl_standard_method_codec_new :: "FlMethodCodec" where
  "fl_standard_method_codec_new = FlStandardMethodCodec"

type_synonym FlMethodChannelMethodCallHandler =
  "kernel \<Rightarrow> string \<Rightarrow> FlMethodCall \<Rightarrow> FlutterPersistentStatePlugin \<Rightarrow> responses \<Rightarrow> responses"

record FlMethodChannel =
  codec :: FlMethodCodec
  method_call_handler :: "(FlMethodChannelMethodCallHandler \<times> FlutterPersistentStatePlugin) option"

type_synonym FlBinaryMessenger = "string \<rightharpoonup> FlMethodChannel"

record FlPluginRegistrar =
  messenger :: FlBinaryMessenger

definition fl_plugin_registrar_get_messenger :: "FlPluginRegistrar \<Rightarrow> FlBinaryMessenger" where
  "fl_plugin_registrar_get_messenger registrar = messenger registrar"

definition fl_method_channel_new ::
  "FlBinaryMessenger \<Rightarrow> string \<Rightarrow> FlMethodCodec \<Rightarrow> string \<times> FlBinaryMessenger" where
  "fl_method_channel_new m channel_name c =
     (c_str channel_name,
      m(c_str channel_name \<mapsto> \<lparr>codec = c, method_call_handler = None\<rparr>))"

definition fl_method_channel_set_method_call_handler ::
  "string \<Rightarrow> FlMethodChannelMethodCallHandler \<Rightarrow> FlutterPersistentStatePlugin \<Rightarrow>
   FlBinaryMessenger \<Rightarrow> FlBinaryMessenger" where
  "fl_method_channel_set_method_call_handler channel handler user_data m =
     (case m channel of
        None \<Rightarrow> m
      | Some ch \<Rightarrow> m(channel \<mapsto> ch\<lparr>method_call_handler := Some (handler, user_data)\<rparr>))"

definition method_call_cb :: "FlMethodChannelMethodCallHandler" where
  "method_call_cb k channel method_call user_data sent =
     (let plugin = user_data
      in flutter_persistent_state_plugin_handle_method_call k plugin method_call sent)"

text \<open>
  \<^verbatim>\<open>g_object_new\<close> makes the plugin object. The reference counts
  (\<^verbatim>\<open>g_object_ref\<close>, \<^verbatim>\<open>g_object_unref\<close>, \<^verbatim>\<open>g_autoptr\<close>) only decide
  when objects are freed and are not modelled.
\<close>

definition g_object_new_plugin :: "FlutterPersistentStatePlugin" where
  "g_object_new_plugin = \<lparr>parent_instance = GObject\<rparr>"

definition flutter_persistent_state_plugin_register_with_registrar ::
  "FlPluginRegistrar \<Rightarrow> FlPluginRegistrar" where
  "flutter_persistent_state_plugin_register_with_registrar registrar =
     (let plugin = g_object_new_plugin;
          codec = fl_standard_method_codec_new;
          (channel, m) =
            fl_method_channel_new (fl_plugin_registrar_get_messenger registrar)
              ''flutter_persistent_state'' codec;
          m = fl_method_channel_set_method_call_handler channel method_call_cb plugin m
      in registrar\<lparr>messenger := m\<rparr>)"

section \<open>Properties\<close>

subsection \<open>C strings and strcmp\<close>

lemma of_char_eq_0_iff: "(of_char c :: int) = 0 \<longleftrightarrow> c = CHR 0x00"
proof -
  have "(of_char c :: int) = of_char (CHR 0x00) \<longleftrightarrow> c = CHR 0x00"
    by (rule of_char_eq_iff)
  then show ?thesis by simp
qed

lemma strcmp_eq_0_iff: "strcmp s t = 0 \<longleftrightarrow> c_str s = c_str t"
proof (induction s t rule: strcmp.induct)
  case 1
  show ?case by simp
next
  case (2 b bs)
  show ?case by (auto simp: c_str_def of_char_eq_0_iff)
next
  case (3 a as)
  show ?case by (auto simp: c_str_def of_char_eq_0_iff)
next
  case (4 a as b bs)
  then show ?case by (auto simp: c_str_def of_char_eq_0_iff)
qed

lemma c_str_no_NUL: "CHR 0x00 \<notin> set s \<Longrightarrow> c_str s = s"
  by (induction s) (auto simp: c_str_def)

lemma c_str_idem: "c_str (c_str s) = c_str s"
  by (simp add: c_str_def)

lemma c_str_zeroed: "c_str (replicate n (CHR 0x00)) = []"
  by (cases n) (simp_all add: c_str_def)

lemma c_str_getPlatformVersion: "c_str ''getPlatformVersion'' = ''getPlatformVersion''"
  by (simp add: c_str_def)

lemma strcmp_getPlatformVersion:
  "strcmp s ''getPlatformVersion'' = 0 \<longleftrightarrow> c_str s = ''getPlatformVersion''"
  by (simp only: strcmp_eq_0_iff c_str_getPlatformVersion)

subsection \<open>What get\_platform\_version returns\<close>

lemma g_strdup_printf_Linux_c_str:
  "c_str (g_strdup_printf_Linux v) = ''Linux '' @ c_str v"
  by (simp add: g_strdup_printf_Linux_def c_str_def)

lemma get_platform_version_Some:
  "get_platform_version (Some u) =
     FlMethodSuccessResponse (FlValueString (''Linux '' @ c_str (version u)))"
  by (simp add: get_platform_version_def uname_def fl_value_new_string_def
      fl_method_success_response_new_def g_strdup_printf_Linux_c_str)

lemma get_platform_version_None:
  "get_platform_version None = FlMethodSuccessResponse (FlValueString ''Linux '')"
  by (simp add: get_platform_version_def uname_def fl_value_new_string_def
      fl_method_success_response_new_def g_strdup_printf_Linux_c_str utsname_zero_def
      c_str_zeroed)

lemma get_platform_version_string:
  "\<exists>v. get_platform_version k = FlMethodSuccessResponse (FlValueString (''Linux '' @ v))"
proof (cases k)
  case None
  then show ?thesis by (simp add: get_platform_version_None)
next
  case (Some u)
  then show ?thesis by (simp add: get_platform_version_Some)
qed

subsection \<open>What the handler sends\<close>

lemma handle_known:
  assumes "c_str (fl_method_call_get_name method_call) = ''getPlatformVersion''"
  shows "flutter_persistent_state_plugin_handle_method_call k self method_call sent =
    sent @ [(method_call, get_platform_version k)]"
  using assms
  by (simp add: flutter_persistent_state_plugin_handle_method_call_def
      strcmp_getPlatformVersion fl_method_call_respond_def)

lemma handle_unknown:
  assumes "c_str (fl_method_call_get_name method_call) \<noteq> ''getPlatformVersion''"
  shows "flutter_persistent_state_plugin_handle_method_call k self method_call sent =
    sent @ [(method_call, FlMethodNotImplementedResponse)]"
  using assms
  by (simp add: flutter_persistent_state_plugin_handle_method_call_def
      strcmp_getPlatformVersion fl_method_call_respond_def
      fl_method_not_implemented_response_new_def)

section \<open>The properties of the specification\<close>

text \<open>
  C1. For every invocation whose method name is not \<^verbatim>\<open>"getPlatformVersion"\<close>, the
  handler responds with a NotImplemented response: the one response it sends for the call
  is \<open>FlMethodNotImplementedResponse\<close>.
\<close>

theorem C1_other_name_not_implemented:
  "c_str (fl_method_call_get_name method_call) \<noteq> ''getPlatformVersion'' \<Longrightarrow>
   flutter_persistent_state_plugin_handle_method_call k self method_call sent =
     sent @ [(method_call, FlMethodNotImplementedResponse)]"
  by (rule handle_unknown)

theorem C1_other_name_not_implemented_witness:
  "c_str (fl_method_call_get_name \<lparr>name = ''frobnicate'', args = FlValueNull\<rparr>)
     \<noteq> ''getPlatformVersion'' \<and>
   flutter_persistent_state_plugin_handle_method_call None \<lparr>parent_instance = GObject\<rparr>
     \<lparr>name = ''frobnicate'', args = FlValueNull\<rparr> [] =
   [(\<lparr>name = ''frobnicate'', args = FlValueNull\<rparr>, FlMethodNotImplementedResponse)]"
proof -
  have h: "c_str (fl_method_call_get_name \<lparr>name = ''frobnicate'', args = FlValueNull\<rparr>)
     \<noteq> ''getPlatformVersion''"
    by (simp add: fl_method_call_get_name_def c_str_def)
  show ?thesis
    using h C1_other_name_not_implemented
      [OF h, of None "\<lparr>parent_instance = GObject\<rparr>" "[]"]
    by simp
qed

text \<open>
  C2. For an invocation whose method name is exactly \<^verbatim>\<open>"getPlatformVersion"\<close>, the
  handler responds with a Success response that carries a string, and the string is not
  empty.
\<close>

theorem C2_getPlatformVersion_success_nonempty:
  "c_str (fl_method_call_get_name method_call) = ''getPlatformVersion'' \<Longrightarrow>
   \<exists>s. flutter_persistent_state_plugin_handle_method_call k self method_call sent =
          sent @ [(method_call, FlMethodSuccessResponse (FlValueString s))]
      \<and> s \<noteq> []"
proof -
  assume known: "c_str (fl_method_call_get_name method_call) = ''getPlatformVersion''"
  obtain v where
    "get_platform_version k = FlMethodSuccessResponse (FlValueString (''Linux '' @ v))"
    using get_platform_version_string by blast
  with handle_known [OF known] show ?thesis by simp
qed

theorem C2_getPlatformVersion_success_nonempty_witness:
  "c_str (fl_method_call_get_name \<lparr>name = ''getPlatformVersion'', args = FlValueNull\<rparr>)
     = ''getPlatformVersion'' \<and>
   (\<exists>s. flutter_persistent_state_plugin_handle_method_call None \<lparr>parent_instance = GObject\<rparr>
          \<lparr>name = ''getPlatformVersion'', args = FlValueNull\<rparr> [] =
        [(\<lparr>name = ''getPlatformVersion'', args = FlValueNull\<rparr>,
          FlMethodSuccessResponse (FlValueString s))]
      \<and> s \<noteq> [])"
proof -
  have h: "c_str (fl_method_call_get_name
      \<lparr>name = ''getPlatformVersion'', args = FlValueNull\<rparr>) = ''getPlatformVersion''"
    by (simp add: fl_method_call_get_name_def c_str_def)
  show ?thesis
    using h C2_getPlatformVersion_success_nonempty
      [OF h, of None "\<lparr>parent_instance = GObject\<rparr>" "[]"]
    by simp
qed

text \<open>
  C3. The string returned by \<^verbatim>\<open>get_platform_version\<close> is the prefix
  \<^verbatim>\<open>"Linux "\<close> followed by the C string that the \<^verbatim>\<open>version\<close> field of
  \<^verbatim>\<open>struct utsname\<close> holds after the call of \<^verbatim>\<open>uname\<close>: the text
  \<^verbatim>\<open>uname\<close> reports there when it succeeds, nothing when it fails. The
  \<^verbatim>\<open>release\<close> field, where a Linux host reports a text like
  \<^verbatim>\<open>5.15.0-generic\<close>, is not read: whatever it holds, the result is the same.
\<close>

theorem C3_Linux_then_version_field:
  "get_platform_version k =
     FlMethodSuccessResponse (FlValueString
       (''Linux '' @ (case k of Some u \<Rightarrow> c_str (version u) | None \<Rightarrow> [])))
   \<and> get_platform_version (map_option (release_update (\<lambda>_. r)) k) = get_platform_version k"
proof (cases k)
  case None
  then show ?thesis by (simp add: get_platform_version_None)
next
  case (Some u)
  then show ?thesis by (simp add: get_platform_version_Some)
qed

theorem C3_Linux_then_version_field_witness:
  "get_platform_version
     (Some \<lparr>sysname = ''Linux'', nodename = ''host'', release = ''5.15.0-generic'',
            version = ''#1 SMP Thu Jan 5 12:00:00 UTC 2023'', machine = ''x86_64'',
            domainname = ''(none)''\<rparr>) =
   FlMethodSuccessResponse (FlValueString ''Linux #1 SMP Thu Jan 5 12:00:00 UTC 2023'')
   \<and> get_platform_version
     (Some \<lparr>sysname = ''Linux'', nodename = ''host'', release = ''6.1.0'',
            version = ''#1 SMP Thu Jan 5 12:00:00 UTC 2023'', machine = ''x86_64'',
            domainname = ''(none)''\<rparr>) =
   get_platform_version
     (Some \<lparr>sysname = ''Linux'', nodename = ''host'', release = ''5.15.0-generic'',
            version = ''#1 SMP Thu Jan 5 12:00:00 UTC 2023'', machine = ''x86_64'',
            domainname = ''(none)''\<rparr>)"
  using C3_Linux_then_version_field
    [of "(Some \<lparr>sysname = ''Linux'', nodename = ''host'', release = ''5.15.0-generic'',
            version = ''#1 SMP Thu Jan 5 12:00:00 UTC 2023'', machine = ''x86_64'',
            domainname = ''(none)''\<rparr>)" "''6.1.0''"]
  by (simp add: c_str_def)

text \<open>
  The claim as the specification words it, with the example
  \<^verbatim>\<open>"Linux 5.15.0-generic"\<close> for a Linux host, fails on a host whose kernel release
  is \<^verbatim>\<open>5.15.0-generic\<close>: that text is in the \<^verbatim>\<open>release\<close> field, and the
  string returned is made from the build text of the \<^verbatim>\<open>version\<close> field.
\<close>

theorem C3_release_counterexample:
  "get_platform_version
     (Some \<lparr>sysname = ''Linux'', nodename = ''host'', release = ''5.15.0-generic'',
            version = ''#1 SMP Thu Jan 5 12:00:00 UTC 2023'', machine = ''x86_64'',
            domainname = ''(none)''\<rparr>) \<noteq>
   FlMethodSuccessResponse (FlValueString ''Linux 5.15.0-generic'')
   \<and> get_platform_version
     (Some \<lparr>sysname = ''Linux'', nodename = ''host'', release = ''5.15.0-generic'',
            version = ''#1 SMP Thu Jan 5 12:00:00 UTC 2023'', machine = ''x86_64'',
            domainname = ''(none)''\<rparr>) \<noteq>
   FlMethodSuccessResponse (FlValueString (''Linux '' @ c_str (release
     \<lparr>sysname = ''Linux'', nodename = ''host'', release = ''5.15.0-generic'',
            version = ''#1 SMP Thu Jan 5 12:00:00 UTC 2023'', machine = ''x86_64'',
            domainname = ''(none)''\<rparr>)))"
  by (simp add: get_platform_version_Some c_str_def)

text \<open>
  C4. For every invocation the handler issues exactly one response: the responses sent
  after the call are those sent before, followed by one response for this call, which is
  the result of \<^verbatim>\<open>get_platform_version\<close> for the known name and NotImplemented for
  any other. The handler is defined on every invocation, so every outcome is a response.
\<close>

theorem C4_exactly_one_response:
  "\<exists>response.
     flutter_persistent_state_plugin_handle_method_call k self method_call sent = sent @ [(method_call, response)]
   \<and> length (flutter_persistent_state_plugin_handle_method_call k self method_call sent) = Suc (length sent)
   \<and> response =
       (if c_str (fl_method_call_get_name method_call) = ''getPlatformVersion''
        then get_platform_version k else FlMethodNotImplementedResponse)"
proof (cases "c_str (fl_method_call_get_name method_call) = ''getPlatformVersion''")
  case True
  then show ?thesis by (simp add: handle_known)
next
  case False
  then show ?thesis by (simp add: handle_unknown)
qed

theorem C4_exactly_one_response_witness:
  "\<exists>response.
     flutter_persistent_state_plugin_handle_method_call None \<lparr>parent_instance = GObject\<rparr>
       \<lparr>name = ''frobnicate'', args = FlValueNull\<rparr>
       [(\<lparr>name = ''getPlatformVersion'', args = FlValueNull\<rparr>,
         FlMethodSuccessResponse (FlValueString ''Linux ''))] =
     [(\<lparr>name = ''getPlatformVersion'', args = FlValueNull\<rparr>,
       FlMethodSuccessResponse (FlValueString ''Linux '')),
      (\<lparr>name = ''frobnicate'', args = FlValueNull\<rparr>, response)]"
  using C4_exactly_one_response [of None "\<lparr>parent_instance = GObject\<rparr>"
    "\<lparr>name = ''frobnicate'', args = FlValueNull\<rparr>"
    "[(\<lparr>name = ''getPlatformVersion'', args = FlValueNull\<rparr>,
       FlMethodSuccessResponse (FlValueString ''Linux ''))]"]
  by auto

text \<open>
  C5. \<^verbatim>\<open>get_platform_version\<close> is deterministic: two calls, made when
  \<^verbatim>\<open>uname\<close> reports the same version data (whatever else it reports, and failing
  both times or neither), return the same response, a Success carrying a string.
\<close>

theorem C5_same_version_same_result:
  "map_option version k1 = map_option version k2 \<Longrightarrow>
   get_platform_version k1 = get_platform_version k2
   \<and> (\<exists>s. get_platform_version k1 = FlMethodSuccessResponse (FlValueString s))"
proof -
  assume same: "map_option version k1 = map_option version k2"
  have "get_platform_version k1 = get_platform_version k2"
  proof (cases k1)
    case None
    with same have "k2 = None" by simp
    with None show ?thesis by simp
  next
    case (Some u1)
    with same obtain u2 where "k2 = Some u2" and "version u2 = version u1"
      by (cases k2) auto
    with Some show ?thesis by (simp add: get_platform_version_Some)
  qed
  moreover have "\<exists>s. get_platform_version k1 = FlMethodSuccessResponse (FlValueString s)"
    using get_platform_version_string [of k1] by blast
  ultimately show ?thesis by simp
qed

theorem C5_same_version_same_result_witness:
  "map_option version
     (Some \<lparr>sysname = ''Linux'', nodename = ''before'', release = ''6.1.0'',
            version = ''#1 SMP'', machine = ''x86_64'', domainname = ''(none)''\<rparr>) =
   map_option version
     (Some \<lparr>sysname = ''Linux'', nodename = ''after'', release = ''6.1.0'',
            version = ''#1 SMP'', machine = ''x86_64'', domainname = ''(none)''\<rparr>)
   \<and> get_platform_version
     (Some \<lparr>sysname = ''Linux'', nodename = ''before'', release = ''6.1.0'',
            version = ''#1 SMP'', machine = ''x86_64'', domainname = ''(none)''\<rparr>) =
   get_platform_version
     (Some \<lparr>sysname = ''Linux'', nodename = ''after'', release = ''6.1.0'',
            version = ''#1 SMP'', machine = ''x86_64'', domainname = ''(none)''\<rparr>)
   \<and> get_platform_version
     (Some \<lparr>sysname = ''Linux'', nodename = ''before'', release = ''6.1.0'',
            version = ''#1 SMP'', machine = ''x86_64'', domainname = ''(none)''\<rparr>) =
   FlMethodSuccessResponse (FlValueString ''Linux #1 SMP'')"
proof -
  have same: "map_option version
     (Some \<lparr>sysname = ''Linux'', nodename = ''before'', release = ''6.1.0'',
            version = ''#1 SMP'', machine = ''x86_64'', domainname = ''(none)''\<rparr>) =
   map_option version
     (Some \<lparr>sysname = ''Linux'', nodename = ''after'', release = ''6.1.0'',
            version = ''#1 SMP'', machine = ''x86_64'', domainname = ''(none)''\<rparr>)"
    by simp
  show ?thesis
    using same C5_same_version_same_result [OF same]
    by (simp add: get_platform_version_Some c_str_def)
qed

text \<open>
  C6. The response to a \<^verbatim>\<open>"getPlatformVersion"\<close> invocation does not depend on
  the arguments: two invocations with that name, whatever their arguments, the plugin
  object and the responses sent before, get the same response under the same system.
\<close>

theorem C6_arguments_not_consulted:
  "c_str (fl_method_call_get_name call1) = ''getPlatformVersion'' \<Longrightarrow>
   c_str (fl_method_call_get_name call2) = ''getPlatformVersion'' \<Longrightarrow>
   \<exists>response.
     flutter_persistent_state_plugin_handle_method_call k self1 call1 sent1 = sent1 @ [(call1, response)]
   \<and> flutter_persistent_state_plugin_handle_method_call k self2 call2 sent2 = sent2 @ [(call2, response)]"
  by (simp add: handle_known)

theorem C6_arguments_not_consulted_witness:
  "\<exists>response.
     flutter_persistent_state_plugin_handle_method_call None \<lparr>parent_instance = GObject\<rparr>
       \<lparr>name = ''getPlatformVersion'', args = FlValueNull\<rparr> [] =
     [(\<lparr>name = ''getPlatformVersion'', args = FlValueNull\<rparr>, response)]
   \<and> flutter_persistent_state_plugin_handle_method_call None \<lparr>parent_instance = GObject\<rparr>
       \<lparr>name = ''getPlatformVersion'',
        args = FlValueList [FlValueInt 7, FlValueString ''x'']\<rparr> [] =
     [(\<lparr>name = ''getPlatformVersion'',
        args = FlValueList [FlValueInt 7, FlValueString ''x'']\<rparr>, response)]"
proof -
  have h1: "c_str (fl_method_call_get_name
      \<lparr>name = ''getPlatformVersion'', args = FlValueNull\<rparr>) = ''getPlatformVersion''"
    by (simp add: fl_method_call_get_name_def c_str_def)
  have h2: "c_str (fl_method_call_get_name
      \<lparr>name = ''getPlatformVersion'',
       args = FlValueList [FlValueInt 7, FlValueString ''x'']\<rparr>) = ''getPlatformVersion''"
    by (simp add: fl_method_call_get_name_def c_str_def)
  show ?thesis
    using C6_arguments_not_consulted [OF h1 h2, of None "\<lparr>parent_instance = GObject\<rparr>"
      "[]" "\<lparr>parent_instance = GObject\<rparr>" "[]"]
    by simp
qed

text \<open>
  C7. Registration creates the method channel under exactly the name
  \<^verbatim>\<open>"flutter_persistent_state"\<close>, with the standard method codec, and installs the
  plugin's callback on it with the new plugin object as user data; the callback runs the
  method-call handler. No channel of another name is touched.
\<close>

theorem C7_registration:
  "messenger (flutter_persistent_state_plugin_register_with_registrar registrar) ''flutter_persistent_state'' =
     Some \<lparr>codec = FlStandardMethodCodec,
           method_call_handler = Some (method_call_cb, g_object_new_plugin)\<rparr>
   \<and> (\<forall>other. other \<noteq> ''flutter_persistent_state'' \<longrightarrow>
        messenger (flutter_persistent_state_plugin_register_with_registrar registrar) other = messenger registrar other)
   \<and> (\<forall>k channel method_call sent.
        method_call_cb k channel method_call g_object_new_plugin sent =
        flutter_persistent_state_plugin_handle_method_call k g_object_new_plugin method_call sent)"
  by (simp add: flutter_persistent_state_plugin_register_with_registrar_def
      fl_method_channel_new_def fl_method_channel_set_method_call_handler_def
      fl_plugin_registrar_get_messenger_def fl_standard_method_codec_new_def
      method_call_cb_def c_str_def)

theorem C7_registration_witness:
  "messenger (flutter_persistent_state_plugin_register_with_registrar \<lparr>messenger = Map.empty\<rparr>) ''flutter_persistent_state'' =
     Some \<lparr>codec = FlStandardMethodCodec,
           method_call_handler = Some (method_call_cb, g_object_new_plugin)\<rparr>
   \<and> ''flutter_persistent_stat'' \<noteq> ''flutter_persistent_state''
   \<and> messenger (flutter_persistent_state_plugin_register_with_registrar \<lparr>messenger = Map.empty\<rparr>) ''flutter_persistent_stat'' = None"
  using C7_registration [of "\<lparr>messenger = Map.empty\<rparr>"]
  by simp

text \<open>
  C8. Method-name matching is exact and case-sensitive, as \<^verbatim>\<open>strcmp\<close> compares
  bytes: the handler's response is NotImplemented exactly when the C string of the name
  is not, byte for byte, \<^verbatim>\<open>"getPlatformVersion"\<close>.
\<close>

theorem C8_exact_match:
  "flutter_persistent_state_plugin_handle_method_call k self method_call sent =
     sent @ [(method_call, FlMethodNotImplementedResponse)]
   \<longleftrightarrow> c_str (fl_method_call_get_name method_call) \<noteq> ''getPlatformVersion''"
proof (cases "c_str (fl_method_call_get_name method_call) = ''getPlatformVersion''")
  case True
  obtain v where
    "get_platform_version k = FlMethodSuccessResponse (FlValueString (''Linux '' @ v))"
    using get_platform_version_string by blast
  with True show ?thesis by (simp add: handle_known)
next
  case False
  then show ?thesis by (simp add: handle_unknown)
qed

theorem C8_exact_match_witness:
  "flutter_persistent_state_plugin_handle_method_call None \<lparr>parent_instance = GObject\<rparr>
     \<lparr>name = ''GetPlatformVersion'', args = FlValueNull\<rparr> [] =
   [(\<lparr>name = ''GetPlatformVersion'', args = FlValueNull\<rparr>, FlMethodNotImplementedResponse)]
   \<and> flutter_persistent_state_plugin_handle_method_call None \<lparr>parent_instance = GObject\<rparr>
     \<lparr>name = ''getPlatformVersion '', args = FlValueNull\<rparr> [] =
   [(\<lparr>name = ''getPlatformVersion '', args = FlValueNull\<rparr>, FlMethodNotImplementedResponse)]
   \<and> flutter_persistent_state_plugin_handle_method_call None \<lparr>parent_instance = GObject\<rparr>
     \<lparr>name = '' getPlatformVersion'', args = FlValueNull\<rparr> [] =
   [(\<lparr>name = '' getPlatformVersion'', args = FlValueNull\<rparr>, FlMethodNotImplementedResponse)]
   \<and> flutter_persistent_state_plugin_handle_method_call None \<lparr>parent_instance = GObject\<rparr>
     \<lparr>name = ''getPlatformVersio'', args = FlValueNull\<rparr> [] =
   [(\<lparr>name = ''getPlatformVersio'', args = FlValueNull\<rparr>, FlMethodNotImplementedResponse)]
   \<and> flutter_persistent_state_plugin_handle_method_call None \<lparr>parent_instance = GObject\<rparr>
     \<lparr>name = ''getPlatformVersion'', args = FlValueNull\<rparr> [] \<noteq>
   [(\<lparr>name = ''getPlatformVersion'', args = FlValueNull\<rparr>, FlMethodNotImplementedResponse)]"
  using
    C8_exact_match [of None "\<lparr>parent_instance = GObject\<rparr>"
      "\<lparr>name = ''GetPlatformVersion'', args = FlValueNull\<rparr>" "[]"]
    C8_exact_match [of None "\<lparr>parent_instance = GObject\<rparr>"
      "\<lparr>name = ''getPlatformVersion '', args = FlValueNull\<rparr>" "[]"]
    C8_exact_match [of None "\<lparr>parent_instance = GObject\<rparr>"
      "\<lparr>name = '' getPlatformVersion'', args = FlValueNull\<rparr>" "[]"]
    C8_exact_match [of None "\<lparr>parent_instance = GObject\<rparr>"
      "\<lparr>name = ''getPlatformVersio'', args = FlValueNull\<rparr>" "[]"]
    C8_exact_match [of None "\<lparr>parent_instance = GObject\<rparr>"
      "\<lparr>name = ''getPlatformVersion'', args = FlValueNull\<rparr>" "[]"]
  by (simp add: fl_method_call_get_name_def c_str_def)

text \<open>
  C9. The handler never produces an Error response: the response it sends is a Success
  carrying a string when the name is \<^verbatim>\<open>"getPlatformVersion"\<close> and NotImplemented
  for any other name, and in neither case an Error.
\<close>

theorem C9_never_error:
  "\<exists>response.
     flutter_persistent_state_plugin_handle_method_call k self method_call sent = sent @ [(method_call, response)]
   \<and> (if c_str (fl_method_call_get_name method_call) = ''getPlatformVersion''
      then \<exists>s. response = FlMethodSuccessResponse (FlValueString s)
      else response = FlMethodNotImplementedResponse)
   \<and> (\<forall>code message details. response \<noteq> FlMethodErrorResponse code message details)"
proof (cases "c_str (fl_method_call_get_name method_call) = ''getPlatformVersion''")
  case True
  obtain v where
    "get_platform_version k = FlMethodSuccessResponse (FlValueString (''Linux '' @ v))"
    using get_platform_version_string by blast
  with True show ?thesis by (simp add: handle_known)
next
  case False
  then show ?thesis by (simp add: handle_unknown)
qed

theorem C9_never_error_witness:
  "\<exists>response.
     flutter_persistent_state_plugin_handle_method_call None \<lparr>parent_instance = GObject\<rparr>
       \<lparr>name = ''getPlatformVersion'', args = FlValueNull\<rparr> [] =
     [(\<lparr>name = ''getPlatformVersion'', args = FlValueNull\<rparr>, response)]
   \<and> (\<exists>s. response = FlMethodSuccessResponse (FlValueString s))
   \<and> response \<noteq> FlMethodErrorResponse ''E'' ''failed'' FlValueNull"
  using C9_never_error [of None "\<lparr>parent_instance = GObject\<rparr>"
    "\<lparr>name = ''getPlatformVersion'', args = FlValueNull\<rparr>" "[]"]
  by (auto simp: fl_method_call_get_name_def c_str_def)

text \<open>
  C10. \<^verbatim>\<open>get_platform_version\<close> returns a Success also when \<^verbatim>\<open>uname\<close>
  fails: the return value is not looked at, the version field it formats is still the
  zeroed array of the initialiser, and the string is \<^verbatim>\<open>"Linux "\<close> followed by
  nothing.
\<close>

theorem C10_uname_failure:
  "uname k utsname_zero = (rc, uname_data) \<Longrightarrow> rc \<noteq> 0 \<Longrightarrow>
   version uname_data = replicate UTSNAME_LENGTH (CHR 0x00)
   \<and> get_platform_version k = FlMethodSuccessResponse (FlValueString ''Linux '')"
proof -
  assume call: "uname k utsname_zero = (rc, uname_data)" and failed: "rc \<noteq> 0"
  from call failed have none: "k = None"
    by (cases k) (simp_all add: uname_def)
  with call have "uname_data = utsname_zero"
    by (simp add: uname_def)
  then have "version uname_data = replicate UTSNAME_LENGTH (CHR 0x00)"
    by (simp add: utsname_zero_def)
  with none show ?thesis by (simp add: get_platform_version_None)
qed

theorem C10_uname_failure_witness:
  "uname None utsname_zero = (- 1, utsname_zero) \<and> (- 1 :: int) \<noteq> 0
   \<and> version utsname_zero = replicate UTSNAME_LENGTH (CHR 0x00)
   \<and> get_platform_version None = FlMethodSuccessResponse (FlValueString ''Linux '')"
proof -
  have call: "uname None utsname_zero = (- 1, utsname_zero)"
    by (simp add: uname_def)
  have failed: "(- 1 :: int) \<noteq> 0"
    by simp
  show ?thesis
    using call failed C10_uname_failure [OF call failed]
    by simp
qed

end
